theory Spec2Isabelle
  imports Main
begin

section \<open>JavaScript values, objects and the store\<close>

text \<open>
  The resolver \<^verbatim>\<open>getPayloadConfigFromPayload\<close> of \<^verbatim>\<open>src/components/ui/chart.tsx\<close>
  receives its payload as \<^verbatim>\<open>unknown\<close>: any JavaScript value. Values are modelled with one
  constructor per \<^verbatim>\<open>typeof\<close> class. Objects and functions are references into a store,
  as in JavaScript, so that aliasing between the config, the payload item and its nested
  payload is whatever the caller passes.

  Numbers are the type parameter \<open>'n\<close>. The two things the resolver observes of a number,
  its rendering by \<^verbatim>\<open>String\<close> and its truthiness, are the fields of \<open>number_ops\<close>,
  supplied by the JavaScript runtime; every theorem below holds for any number type and any
  such runtime.

  An object is the map from property names to the values that \<^verbatim>\<open>in\<close> and a property read
  see through it, the only two operations the resolver applies to an object: both look at
  the object's own properties and then along its prototype chain, so the map holds the data
  properties visible either way. A property exists when \<^verbatim>\<open>in\<close> says so. Objects
  with accessor properties and proxies, whose reads run code, are not in this store: they
  have their own section below, with the resolver over them.
\<close>

type_synonym addr = nat

datatype 'n jsval =
    JUndefined
  | JNull
  | JBool bool
  | JNum 'n
  | JStr string
  | JBigInt int
  | JSymbol string
  | JFun addr
  | JObj addr

type_synonym 'n jsobject = "string \<rightharpoonup> 'n jsval"

text \<open>
  The world a call runs in: the store of objects (every address holds an object; one that
  was never written holds the object without properties) and the output written so far.
\<close>

record 'n world =
  heap :: "addr \<Rightarrow> 'n jsobject"
  console :: "string list"

record 'n number_ops =
  Number_toString :: "'n \<Rightarrow> string"
  Number_toBoolean :: "'n \<Rightarrow> bool"

text \<open>
  Outcomes other than a value: the \<^verbatim>\<open>TypeError\<close> the runtime raises, the \<^verbatim>\<open>Error\<close> a
  \<^verbatim>\<open>throw new Error(msg)\<close> raises, and \<open>Unmodelled\<close> for an operation whose result the
  model does not determine (a property read on a primitive goes through its wrapper's
  prototype; \<^verbatim>\<open>String\<close> of an object runs the object's own \<^verbatim>\<open>toString\<close>).
\<close>

datatype error = TypeError string | Error string | Unmodelled string

text \<open>A computation reads and may change the world, and ends in a value or an error.\<close>

type_synonym ('n, 'a) js = "'n world \<Rightarrow> (error + 'a) \<times> 'n world"

definition js_return :: "'a \<Rightarrow> ('n, 'a) js" where
  "js_return x = (\<lambda>w. (Inr x, w))"

definition js_throw :: "error \<Rightarrow> ('n, 'a) js" where
  "js_throw e = (\<lambda>w. (Inl e, w))"

definition js_bind :: "('n, 'a) js \<Rightarrow> ('a \<Rightarrow> ('n, 'b) js) \<Rightarrow> ('n, 'b) js" where
  "js_bind m f = (\<lambda>w. case m w of (Inl e, w') \<Rightarrow> (Inl e, w') | (Inr x, w') \<Rightarrow> f x w')"

subsection \<open>Operators\<close>

fun js_typeof :: "'n jsval \<Rightarrow> string" where
  "js_typeof JUndefined = ''undefined''"
| "js_typeof JNull = ''object''"
| "js_typeof (JBool b) = ''boolean''"
| "js_typeof (JNum n) = ''number''"
| "js_typeof (JStr s) = ''string''"
| "js_typeof (JBigInt i) = ''bigint''"
| "js_typeof (JSymbol d) = ''symbol''"
| "js_typeof (JFun a) = ''function''"
| "js_typeof (JObj a) = ''object''"

fun js_truthy :: "'n number_ops \<Rightarrow> 'n jsval \<Rightarrow> bool" where
  "js_truthy ops JUndefined = False"
| "js_truthy ops JNull = False"
| "js_truthy ops (JBool b) = b"
| "js_truthy ops (JNum n) = Number_toBoolean ops n"
| "js_truthy ops (JStr s) = (s \<noteq> [])"
| "js_truthy ops (JBigInt i) = (i \<noteq> 0)"
| "js_truthy ops (JSymbol d) = True"
| "js_truthy ops (JFun a) = True"
| "js_truthy ops (JObj a) = True"

text \<open>
  \<^verbatim>\<open>key in v\<close> on the objects of this store, which show data only: a \<^verbatim>\<open>TypeError\<close>
  unless \<open>v\<close> is an object or a function. With a \<^verbatim>\<open>has\<close> trap it is \<open>js_in_full\<close>.
\<close>

fun js_in :: "string \<Rightarrow> 'n jsval \<Rightarrow> ('n, bool) js" where
  "js_in key (JObj a) = (\<lambda>w. (Inr (heap w a key \<noteq> None), w))"
| "js_in key (JFun a) = (\<lambda>w. (Inr (heap w a key \<noteq> None), w))"
| "js_in key v = js_throw (TypeError ''Cannot use 'in' operator'')"

text \<open>
  \<^verbatim>\<open>v[key]\<close> on the objects of this store: the property's value, \<^verbatim>\<open>undefined\<close> for a
  property the object does not have, a \<^verbatim>\<open>TypeError\<close> on \<^verbatim>\<open>undefined\<close> and
  \<^verbatim>\<open>null\<close>. With getters and a \<^verbatim>\<open>get\<close> trap it is \<open>js_get_full\<close>.
\<close>

fun js_get :: "'n jsval \<Rightarrow> string \<Rightarrow> ('n, 'n jsval) js" where
  "js_get (JObj a) key =
     (\<lambda>w. (Inr (case heap w a key of None \<Rightarrow> JUndefined | Some v \<Rightarrow> v), w))"
| "js_get (JFun a) key =
     (\<lambda>w. (Inr (case heap w a key of None \<Rightarrow> JUndefined | Some v \<Rightarrow> v), w))"
| "js_get JUndefined key = js_throw (TypeError ''Cannot read properties of undefined'')"
| "js_get JNull key = js_throw (TypeError ''Cannot read properties of null'')"
| "js_get v key = js_throw (Unmodelled ''property of a primitive'')"

text \<open>
  \<^verbatim>\<open>String(v)\<close>: a string is itself, a number is rendered by the runtime, and
  \<^verbatim>\<open>undefined\<close>, \<^verbatim>\<open>null\<close> and the booleans by their names.
\<close>

fun js_String :: "'n number_ops \<Rightarrow> 'n jsval \<Rightarrow> ('n, string) js" where
  "js_String ops (JStr s) = js_return s"
| "js_String ops (JNum n) = js_return (Number_toString ops n)"
| "js_String ops JUndefined = js_return ''undefined''"
| "js_String ops JNull = js_return ''null''"
| "js_String ops (JBool b) = js_return (if b then ''true'' else ''false'')"
| "js_String ops v = js_throw (Unmodelled ''String of an object, function, symbol or bigint'')"

section \<open>The resolver\<close>

text \<open>
  Lines 428 to 433: the nested \<^verbatim>\<open>payload\<close> property when it is a non-null object,
  \<^verbatim>\<open>undefined\<close> otherwise. The source reads the property once per test and once more for
  the result.
\<close>

definition payloadPayload_of :: "'n number_ops \<Rightarrow> 'n jsval \<Rightarrow> ('n, 'n jsval) js" where
  "payloadPayload_of ops typedPayload =
     js_bind (js_get typedPayload ''payload'') (\<lambda>p1.
       if \<not> js_truthy ops p1 then js_return JUndefined
       else js_bind (js_get typedPayload ''payload'') (\<lambda>p2.
         if js_typeof p2 \<noteq> ''object'' then js_return JUndefined
         else js_bind (js_get typedPayload ''payload'') (\<lambda>p3.
           if p3 = JNull then js_return JUndefined
           else js_get typedPayload ''payload'')))"

text \<open>
  Lines 440 to 442 and 447 to 449: \<^verbatim>\<open>key in obj && (typeof obj[key] === "string" ||
  typeof obj[key] === "number")\<close>, with the short circuits of \<^verbatim>\<open>&&\<close> and \<^verbatim>\<open>||\<close>.
\<close>

definition key_is_string_or_number :: "string \<Rightarrow> 'n jsval \<Rightarrow> ('n, bool) js" where
  "key_is_string_or_number key obj =
     js_bind (js_in key obj) (\<lambda>present.
       if \<not> present then js_return False
       else js_bind (js_get obj key) (\<lambda>v1.
         if js_typeof v1 = ''string'' then js_return True
         else js_bind (js_get obj key) (\<lambda>v2.
           js_return (js_typeof v2 = ''number''))))"

text \<open>
  Lines 435 to 452: \<^verbatim>\<open>configLabelKey\<close> starts as \<open>key\<close> and is overwritten by the first
  branch of the \<^verbatim>\<open>if\<close> / \<^verbatim>\<open>else if\<close> whose condition holds.
\<close>

definition configLabelKey_of ::
  "'n number_ops \<Rightarrow> 'n jsval \<Rightarrow> 'n jsval \<Rightarrow> string \<Rightarrow> ('n, string) js" where
  "configLabelKey_of ops typedPayload payloadPayload key =
     js_bind (key_is_string_or_number key typedPayload) (\<lambda>direct.
       if direct then js_bind (js_get typedPayload key) (js_String ops)
       else js_bind (if js_truthy ops payloadPayload
                     then key_is_string_or_number key payloadPayload
                     else js_return False) (\<lambda>nested.
         if nested then js_bind (js_get payloadPayload key) (js_String ops)
         else js_return key))"

text \<open>
  Lines 410 to 458. \<open>config\<close> has the type \<^verbatim>\<open>ChartConfig\<close>, an object: it is passed as
  the object's address. The result is the entry found, or \<^verbatim>\<open>undefined\<close>.
\<close>

definition getPayloadConfigFromPayload ::
  "'n number_ops \<Rightarrow> addr \<Rightarrow> 'n jsval \<Rightarrow> string \<Rightarrow> ('n, 'n jsval) js" where
  "getPayloadConfigFromPayload ops config payload key =
     (if js_typeof payload \<noteq> ''object'' \<or> payload = JNull then js_return JUndefined
      else
        js_bind (payloadPayload_of ops payload) (\<lambda>payloadPayload.
        js_bind (configLabelKey_of ops payload payloadPayload key) (\<lambda>configLabelKey.
        js_bind (js_in configLabelKey (JObj config)) (\<lambda>found.
          if found then js_get (JObj config) configLabelKey
          else js_get (JObj config) key))))"

section \<open>The resolver as the specification words it\<close>

text \<open>
  The specification's algorithm, over the contents of the objects: a field counts when it
  holds a string or a number, and its stringified value is then the effective lookup key.
\<close>

fun spec_stringified :: "'n number_ops \<Rightarrow> 'n jsval option \<Rightarrow> string option" where
  "spec_stringified ops (Some (JStr s)) = Some s"
| "spec_stringified ops (Some (JNum n)) = Some (Number_toString ops n)"
| "spec_stringified ops v = None"

text \<open>The nested payload: the field \<^verbatim>\<open>payload\<close> when it holds an object.\<close>

definition spec_nested_payload :: "'n jsobject \<Rightarrow> addr option" where
  "spec_nested_payload item =
     (case item ''payload'' of Some (JObj b) \<Rightarrow> Some b | _ \<Rightarrow> None)"

text \<open>Direct field, else nested payload field, else the literal key.\<close>

definition spec_effective_key ::
  "'n number_ops \<Rightarrow> (addr \<Rightarrow> 'n jsobject) \<Rightarrow> 'n jsobject \<Rightarrow> string \<Rightarrow> string" where
  "spec_effective_key ops h item key =
     (case spec_stringified ops (item key) of
        Some s \<Rightarrow> s
      | None \<Rightarrow>
          (case spec_nested_payload item of
             Some b \<Rightarrow> (case spec_stringified ops (h b key) of Some s \<Rightarrow> s | None \<Rightarrow> key)
           | None \<Rightarrow> key))"

text \<open>The direct tier alone: the key the resolver would use if there were no nested payload.\<close>

definition spec_direct_key :: "'n number_ops \<Rightarrow> 'n jsobject \<Rightarrow> string \<Rightarrow> string" where
  "spec_direct_key ops item key =
     (case spec_stringified ops (item key) of Some s \<Rightarrow> s | None \<Rightarrow> key)"

text \<open>The entry under the effective key, else the entry under the literal key, else nothing.\<close>

definition spec_lookup :: "'n jsobject \<Rightarrow> string \<Rightarrow> string \<Rightarrow> 'n jsval" where
  "spec_lookup cfg ek key =
     (case cfg ek of
        Some e \<Rightarrow> e
      | None \<Rightarrow> (case cfg key of Some e \<Rightarrow> e | None \<Rightarrow> JUndefined))"

section \<open>The chart context\<close>

text \<open>
  Lines 43 to 57. \<open>context\<close> is what \<^verbatim>\<open>React.useContext(ChartContext)\<close> yields: the
  value of the enclosing provider, which \<^verbatim>\<open>ChartContainer\<close> sets to \<^verbatim>\<open>{ config }\<close>, or
  the default \<^verbatim>\<open>null\<close> of \<^verbatim>\<open>createContext\<close> where there is no provider.
\<close>

definition useChart :: "'c option \<Rightarrow> ('n, 'c) js" where
  "useChart context =
     (case context of
        None \<Rightarrow> js_throw (Error ''useChart must be used within a <ChartContainer />'')
      | Some c \<Rightarrow> js_return c)"

section \<open>The chart configuration and its style sheet\<close>

text \<open>
  Lines 19 to 34. \<^verbatim>\<open>ChartStyle\<close> reads the fields of the entries, so here an entry is a
  record of its four optional fields, and a config is the list of its entries in the order
  \<^verbatim>\<open>Object.entries\<close> enumerates them. \<^verbatim>\<open>React.ReactNode\<close> and
  \<^verbatim>\<open>React.ComponentType\<close> are type parameters.
\<close>

definition THEMES :: "(string \<times> string) list" where
  "THEMES = [(''light'', ''''), (''dark'', ''.dark'')]"

record ThemeColors =
  light :: string
  dark :: string

record ('node, 'comp) ItemConfig =
  label :: "'node option"
  icon :: "'comp option"
  color :: "string option"
  theme :: "ThemeColors option"

type_synonym ('node, 'comp) ChartConfig = "(string \<times> ('node, 'comp) ItemConfig) list"

text \<open>
  The union of lines 30 to 33 as a predicate on entries: the first arm forbids \<open>theme\<close>
  and leaves \<open>color\<close> optional, the second forbids \<open>color\<close> and requires \<open>theme\<close>.
\<close>

definition ChartConfig_entry_type :: "('node, 'comp) ItemConfig \<Rightarrow> bool" where
  "ChartConfig_entry_type e \<longleftrightarrow>
     theme e = None \<or> (color e = None \<and> theme e \<noteq> None)"

text \<open>Truthiness of a value of type \<^verbatim>\<open>string | undefined\<close>.\<close>

definition string_truthy :: "string option \<Rightarrow> bool" where
  "string_truthy c = (case c of None \<Rightarrow> False | Some s \<Rightarrow> s \<noteq> [])"

text \<open>\<^verbatim>\<open>itemConfig.theme[theme]\<close>.\<close>

definition theme_get :: "ThemeColors \<Rightarrow> string \<Rightarrow> string option" where
  "theme_get t name =
     (if name = ''light'' then Some (light t)
      else if name = ''dark'' then Some (dark t)
      else None)"

definition NL :: string where
  "NL = [CHR 0x0A]"

text \<open>\<^verbatim>\<open>Array.prototype.join\<close> on an array of strings.\<close>

fun array_join :: "string \<Rightarrow> string list \<Rightarrow> string" where
  "array_join sep [] = []"
| "array_join sep [x] = x"
| "array_join sep (x # y # ys) = x @ sep @ array_join sep (y # ys)"

text \<open>Lines 109 to 111.\<close>

definition colorConfig_of :: "('node, 'comp) ChartConfig \<Rightarrow> ('node, 'comp) ChartConfig" where
  "colorConfig_of config =
     filter (\<lambda>(k, itemConfig). theme itemConfig \<noteq> None \<or> string_truthy (color itemConfig))
       config"

text \<open>Lines 127 to 129: \<^verbatim>\<open>itemConfig.theme?.[theme] || itemConfig.color\<close>.\<close>

definition item_color :: "string \<Rightarrow> ('node, 'comp) ItemConfig \<Rightarrow> string option" where
  "item_color themeName itemConfig =
     (let themed = (case theme itemConfig of None \<Rightarrow> None | Some t \<Rightarrow> theme_get t themeName)
      in if string_truthy themed then themed else color itemConfig)"

text \<open>Line 130: the declaration of the custom property, or \<^verbatim>\<open>null\<close>.\<close>

definition css_variable :: "string \<Rightarrow> string \<Rightarrow> ('node, 'comp) ItemConfig \<Rightarrow> string option" where
  "css_variable themeName key itemConfig =
     (case item_color themeName itemConfig of
        None \<Rightarrow> None
      | Some c \<Rightarrow> if c \<noteq> [] then Some (''  --color-'' @ key @ '': '' @ c @ '';'') else None)"

text \<open>Lines 122 to 135: the rule of one theme.\<close>

definition theme_rule ::
  "string \<Rightarrow> ('node, 'comp) ChartConfig \<Rightarrow> string \<times> string \<Rightarrow> string" where
  "theme_rule chart_id colorConfig = (\<lambda>(themeName, prefix).
     NL @ prefix @ '' [data-chart='' @ chart_id @ ''] {'' @ NL @
     array_join NL
       (map the (filter (\<lambda>l. l \<noteq> None)
          (map (\<lambda>(key, itemConfig). css_variable themeName key itemConfig) colorConfig))) @
     NL @ ''}'' @ NL)"

text \<open>
  Lines 107 to 141. The result is \<open>None\<close> for \<^verbatim>\<open>null\<close>, and otherwise the text of the
  \<^verbatim>\<open>style\<close> element.
\<close>

definition ChartStyle :: "string \<Rightarrow> ('node, 'comp) ChartConfig \<Rightarrow> string option" where
  "ChartStyle chart_id config =
     (let colorConfig = colorConfig_of config in
      if length colorConfig = 0 then None
      else Some (array_join NL (map (theme_rule chart_id colorConfig) THEMES)))"

text \<open>The color an entry is given under a theme, if any, and the declarations of a theme.\<close>

definition spec_color :: "string \<Rightarrow> ('node, 'comp) ItemConfig \<Rightarrow> string option" where
  "spec_color themeName e =
     (let direct = (case color e of None \<Rightarrow> None | Some c \<Rightarrow> if c = [] then None else Some c)
      in case theme e of
           None \<Rightarrow> direct
         | Some t \<Rightarrow>
             (case theme_get t themeName of
                None \<Rightarrow> direct
              | Some c \<Rightarrow> if c = [] then direct else Some c))"

definition spec_declarations :: "string \<Rightarrow> ('node, 'comp) ChartConfig \<Rightarrow> string list" where
  "spec_declarations themeName config =
     concat (map (\<lambda>(key, e). case spec_color themeName e of
                                None \<Rightarrow> []
                              | Some c \<Rightarrow> [''  --color-'' @ key @ '': '' @ c @ '';'']) config)"

text \<open>The rule of one theme and the whole style sheet, from those declarations.\<close>

definition spec_theme_rule ::
  "string \<Rightarrow> ('node, 'comp) ChartConfig \<Rightarrow> string \<times> string \<Rightarrow> string" where
  "spec_theme_rule chart_id config = (\<lambda>(themeName, prefix).
     NL @ prefix @ '' [data-chart='' @ chart_id @ ''] {'' @ NL @
     array_join NL (spec_declarations themeName config) @
     NL @ ''}'' @ NL)"

definition spec_style :: "string \<Rightarrow> ('node, 'comp) ChartConfig \<Rightarrow> string" where
  "spec_style chart_id config =
     array_join NL [spec_theme_rule chart_id config (''light'', ''''),
                    spec_theme_rule chart_id config (''dark'', ''.dark'')]"

section \<open>A runtime for integer-valued numbers, and example worlds\<close>

text \<open>
  On an integer-valued number of magnitude below \<open>10\<^sup>2\<^sup>1\<close>, \<^verbatim>\<open>String\<close> gives the decimal
  digits, with a minus sign when negative; such a number is falsy exactly when it is zero.
\<close>

definition digit_char :: "nat \<Rightarrow> char" where
  "digit_char d = ''0123456789'' ! d"

fun show_nat :: "nat \<Rightarrow> string" where
  "show_nat n = (if n < 10 then [digit_char n] else show_nat (n div 10) @ [digit_char (n mod 10)])"

definition show_int :: "int \<Rightarrow> string" where
  "show_int i = (if i < 0 then ''-'' @ show_nat (nat (- i)) else show_nat (nat i))"

definition integer_ops :: "int number_ops" where
  "integer_ops = \<lparr>Number_toString = show_int, Number_toBoolean = (\<lambda>i. i \<noteq> 0)\<rparr>"

text \<open>
  A store with a config at address 1 (entries under \<^verbatim>\<open>"bar"\<close>, \<^verbatim>\<open>"foo"\<close> and
  \<^verbatim>\<open>"42"\<close>) and payload items at addresses 2 to 7.
\<close>

definition example_heap :: "addr \<Rightarrow> int jsobject" where
  "example_heap = (\<lambda>a. Map.empty)
     (1 := [''bar'' \<mapsto> JObj 10, ''foo'' \<mapsto> JObj 11, ''42'' \<mapsto> JObj 12],
      2 := [''foo'' \<mapsto> JStr ''bar''],
      3 := [''payload'' \<mapsto> JObj 2],
      4 := [''foo'' \<mapsto> JNum 42],
      5 := Map.empty,
      6 := [''payload'' \<mapsto> JStr ''bar''],
      7 := [''payload'' \<mapsto> JNull],
      10 := [''label'' \<mapsto> JStr ''Bar''],
      11 := [''label'' \<mapsto> JStr ''Foo''],
      12 := [''label'' \<mapsto> JStr ''Forty-two''])"

definition example_world :: "int world" where
  "example_world = \<lparr>heap = example_heap, console = []\<rparr>"

definition other_world :: "int world" where
  "other_world =
     \<lparr>heap = example_heap (20 := [''value'' \<mapsto> JNum 7]), console = [''rendered'']\<rparr>"

definition plain_entry :: "(string, string) ItemConfig" where
  "plain_entry = \<lparr>label = Some ''Visitors'', icon = None, color = None, theme = None\<rparr>"

definition colored_entry :: "(string, string) ItemConfig" where
  "colored_entry =
     \<lparr>label = Some ''Desktop'', icon = None, color = Some ''#2563eb'', theme = None\<rparr>"

definition themed_entry :: "(string, string) ItemConfig" where
  "themed_entry = \<lparr>label = Some ''Mobile'', icon = None, color = None,
     theme = Some \<lparr>light = ''#60a5fa'', dark = ''#1d4ed8''\<rparr>\<rparr>"

definition both_entry :: "(string, string) ItemConfig" where
  "both_entry = \<lparr>label = None, icon = None, color = Some ''red'',
     theme = Some \<lparr>light = ''#60a5fa'', dark = ''#1d4ed8''\<rparr>\<rparr>"

definition blank_entry :: "(string, string) ItemConfig" where
  "blank_entry = \<lparr>label = Some ''Tablet'', icon = None, color = Some '''', theme = None\<rparr>"

section \<open>Objects whose reads run code\<close>

text \<open>
  The store above holds objects by the data they show. A payload item can be more than that:
  a property may be an accessor, whose read calls a getter that returns or throws; a property
  may be the object's own or come from its prototype chain; and the object may be a proxy,
  whose \<^verbatim>\<open>has\<close> and \<^verbatim>\<open>get\<close> traps answer \<^verbatim>\<open>in\<close> and a read in its place. Here an object
  has all of these. A getter or a trap is given by its outcome, a value or the error thrown;
  the properties are association lists, the inherited ones being what the prototype chain
  adds to the object's own.
\<close>

datatype 'n property = Data "'n jsval" | Accessor "error + 'n jsval"

record 'n js_object =
  own :: "(string \<times> 'n property) list"
  inherited :: "(string \<times> 'n property) list"
  has_trap :: "(string \<Rightarrow> error + bool) option"
  get_trap :: "(string \<Rightarrow> error + 'n jsval) option"

type_synonym 'n store = "addr \<Rightarrow> 'n js_object"

definition bind_result :: "error + 'a \<Rightarrow> ('a \<Rightarrow> error + 'b) \<Rightarrow> error + 'b" where
  "bind_result r f = (case r of Inl e \<Rightarrow> Inl e | Inr x \<Rightarrow> f x)"

text \<open>The property found under a key: the object's own first, then the inherited one.\<close>

definition lookup_property :: "'n js_object \<Rightarrow> string \<Rightarrow> 'n property option" where
  "lookup_property obj key =
     (case map_of (own obj) key of
        Some p \<Rightarrow> Some p
      | None \<Rightarrow> map_of (inherited obj) key)"

text \<open>\<^verbatim>\<open>key in v\<close>, by the \<^verbatim>\<open>has\<close> trap when there is one.\<close>

fun js_in_full :: "'n store \<Rightarrow> string \<Rightarrow> 'n jsval \<Rightarrow> error + bool" where
  "js_in_full S key (JObj a) =
     (case has_trap (S a) of
        Some trap \<Rightarrow> trap key
      | None \<Rightarrow> Inr (lookup_property (S a) key \<noteq> None))"
| "js_in_full S key (JFun a) =
     (case has_trap (S a) of
        Some trap \<Rightarrow> trap key
      | None \<Rightarrow> Inr (lookup_property (S a) key \<noteq> None))"
| "js_in_full S key v = Inl (TypeError ''Cannot use 'in' operator'')"

text \<open>
  \<^verbatim>\<open>v[key]\<close>, by the \<^verbatim>\<open>get\<close> trap when there is one; the read of an accessor is the
  outcome of its getter.
\<close>

fun read_property :: "'n property option \<Rightarrow> error + 'n jsval" where
  "read_property None = Inr JUndefined"
| "read_property (Some (Data v)) = Inr v"
| "read_property (Some (Accessor outcome)) = outcome"

fun js_get_full :: "'n store \<Rightarrow> 'n jsval \<Rightarrow> string \<Rightarrow> error + 'n jsval" where
  "js_get_full S (JObj a) key =
     (case get_trap (S a) of
        Some trap \<Rightarrow> trap key
      | None \<Rightarrow> read_property (lookup_property (S a) key))"
| "js_get_full S (JFun a) key =
     (case get_trap (S a) of
        Some trap \<Rightarrow> trap key
      | None \<Rightarrow> read_property (lookup_property (S a) key))"
| "js_get_full S JUndefined key = Inl (TypeError ''Cannot read properties of undefined'')"
| "js_get_full S JNull key = Inl (TypeError ''Cannot read properties of null'')"
| "js_get_full S v key = Inl (Unmodelled ''property of a primitive'')"

fun js_String_full :: "'n number_ops \<Rightarrow> 'n jsval \<Rightarrow> error + string" where
  "js_String_full ops (JStr s) = Inr s"
| "js_String_full ops (JNum n) = Inr (Number_toString ops n)"
| "js_String_full ops JUndefined = Inr ''undefined''"
| "js_String_full ops JNull = Inr ''null''"
| "js_String_full ops (JBool b) = Inr (if b then ''true'' else ''false'')"
| "js_String_full ops v = Inl (Unmodelled ''String of an object, function, symbol or bigint'')"

text \<open>
  The resolver over such objects: lines 428 to 433, lines 440 to 442 and 447 to 449,
  lines 435 to 452 and lines 410 to 458 once more, each read and each \<^verbatim>\<open>in\<close> now able
  to end in the error of a getter or a trap.
\<close>

definition payloadPayload_of_full ::
  "'n number_ops \<Rightarrow> 'n store \<Rightarrow> 'n jsval \<Rightarrow> error + 'n jsval" where
  "payloadPayload_of_full ops S typedPayload =
     bind_result (js_get_full S typedPayload ''payload'') (\<lambda>p1.
       if \<not> js_truthy ops p1 then Inr JUndefined
       else bind_result (js_get_full S typedPayload ''payload'') (\<lambda>p2.
         if js_typeof p2 \<noteq> ''object'' then Inr JUndefined
         else bind_result (js_get_full S typedPayload ''payload'') (\<lambda>p3.
           if p3 = JNull then Inr JUndefined
           else js_get_full S typedPayload ''payload'')))"

definition key_is_string_or_number_full ::
  "'n store \<Rightarrow> string \<Rightarrow> 'n jsval \<Rightarrow> error + bool" where
  "key_is_string_or_number_full S key obj =
     bind_result (js_in_full S key obj) (\<lambda>present.
       if \<not> present then Inr False
       else bind_result (js_get_full S obj key) (\<lambda>v1.
         if js_typeof v1 = ''string'' then Inr True
         else bind_result (js_get_full S obj key) (\<lambda>v2.
           Inr (js_typeof v2 = ''number''))))"

definition configLabelKey_of_full ::
  "'n number_ops \<Rightarrow> 'n store \<Rightarrow> 'n jsval \<Rightarrow> 'n jsval \<Rightarrow> string \<Rightarrow> error + string" where
  "configLabelKey_of_full ops S typedPayload payloadPayload key =
     bind_result (key_is_string_or_number_full S key typedPayload) (\<lambda>direct.
       if direct then bind_result (js_get_full S typedPayload key) (js_String_full ops)
       else bind_result (if js_truthy ops payloadPayload
                         then key_is_string_or_number_full S key payloadPayload
                         else Inr False) (\<lambda>nested.
         if nested then bind_result (js_get_full S payloadPayload key) (js_String_full ops)
         else Inr key))"

definition getPayloadConfigFromPayload_full ::
  "'n number_ops \<Rightarrow> 'n store \<Rightarrow> addr \<Rightarrow> 'n jsval \<Rightarrow> string \<Rightarrow> error + 'n jsval" where
  "getPayloadConfigFromPayload_full ops S config payload key =
     (if js_typeof payload \<noteq> ''object'' \<or> payload = JNull then Inr JUndefined
      else
        bind_result (payloadPayload_of_full ops S payload) (\<lambda>payloadPayload.
        bind_result (configLabelKey_of_full ops S payload payloadPayload key) (\<lambda>configLabelKey.
        bind_result (js_in_full S configLabelKey (JObj config)) (\<lambda>found.
          if found then js_get_full S (JObj config) configLabelKey
          else js_get_full S (JObj config) key))))"

text \<open>
  An object of data only: no trap, and every property, own or inherited, a data property.
  Its data view is the map of the store above.
\<close>

fun is_data :: "'n property \<Rightarrow> bool" where
  "is_data (Data v) = True"
| "is_data (Accessor outcome) = False"

definition data_only :: "'n js_object \<Rightarrow> bool" where
  "data_only obj \<longleftrightarrow>
     has_trap obj = None \<and> get_trap obj = None \<and>
     list_all (\<lambda>(k, p). is_data p) (own obj) \<and>
     list_all (\<lambda>(k, p). is_data p) (inherited obj)"

definition data_view :: "'n js_object \<Rightarrow> 'n jsobject" where
  "data_view obj key =
     (case lookup_property obj key of Some (Data v) \<Rightarrow> Some v | _ \<Rightarrow> None)"

text \<open>
  A store for the examples. The config at address 1 has one entry of its own and inherits
  \<^verbatim>\<open>toString\<close>, as every object literal does. The payload items: at 2 an object whose
  property \<^verbatim>\<open>foo\<close> is an accessor with a throwing getter; at 3 a proxy whose \<^verbatim>\<open>has\<close>
  trap throws; at 4 the empty object; at 5 \<^verbatim>\<open>{name: "toString"}\<close>; at 6 an object with
  fields of several types; at 7 one whose nested payload is the object at 8.
\<close>

definition Object_prototype :: "(string \<times> int property) list" where
  "Object_prototype = [(''toString'', Data (JFun 30)), (''constructor'', Data (JFun 31))]"

definition plain :: "(string \<times> int property) list \<Rightarrow> int js_object" where
  "plain props =
     \<lparr>own = props, inherited = Object_prototype, has_trap = None, get_trap = None\<rparr>"

definition example_store :: "int store" where
  "example_store = (\<lambda>a. plain [])
     (1 := plain [(''bar'', Data (JObj 10))],
      2 := plain [(''foo'', Accessor (Inl (Error ''boom'')))],
      3 := (plain []) \<lparr>has_trap := Some (\<lambda>k. Inl (TypeError ''has trap''))\<rparr>,
      4 := plain [],
      5 := plain [(''name'', Data (JStr ''toString''))],
      6 := plain [(''foo'', Data (JBool True)), (''payload'', Data (JNum 5)),
                  (''name'', Data (JStr ''bar'')), (''value'', Data (JSymbol ''s''))],
      7 := plain [(''payload'', Data (JObj 8))],
      8 := plain [(''name'', Data (JStr ''bar'')), (''foo'', Data JNull)])"

section \<open>Running the resolver on an object\<close>

declare show_nat.simps [simp del]

lemma js_return_apply [simp]: "js_return x w = (Inr x, w)"
  by (simp add: js_return_def)

lemma js_throw_apply [simp]: "js_throw e w = (Inl e, w)"
  by (simp add: js_throw_def)

lemma js_bind_return [simp]: "js_bind (js_return x) f = f x"
  by (simp add: js_bind_def js_return_def)

lemma js_bind_Inr: "m w = (Inr x, w') \<Longrightarrow> js_bind m f w = f x w'"
  by (simp add: js_bind_def)

lemma js_in_obj [simp]: "js_in key (JObj a) w = (Inr (heap w a key \<noteq> None), w)"
  by simp

lemma js_get_obj [simp]:
  "js_get (JObj a) key w = (Inr (case heap w a key of None \<Rightarrow> JUndefined | Some v \<Rightarrow> v), w)"
  by simp

declare js_in.simps [simp del] js_get.simps [simp del]

lemma payloadPayload_of_obj:
  "payloadPayload_of ops (JObj a) w =
     (Inr (case spec_nested_payload (heap w a) of Some b \<Rightarrow> JObj b | None \<Rightarrow> JUndefined), w)"
  by (cases "heap w a ''payload''"; cases "the (heap w a ''payload'')")
     (simp_all add: payloadPayload_of_def spec_nested_payload_def js_bind_def)

lemma key_is_string_or_number_obj:
  "key_is_string_or_number key (JObj a) w =
     (Inr (spec_stringified ops (heap w a key) \<noteq> None), w)"
  by (cases "heap w a key"; cases "the (heap w a key)")
     (simp_all add: key_is_string_or_number_def js_bind_def)

lemma get_String_obj:
  "spec_stringified ops (heap w a key) = Some s \<Longrightarrow>
   js_bind (js_get (JObj a) key) (js_String ops) w = (Inr s, w)"
  by (cases "heap w a key"; cases "the (heap w a key)") (simp_all add: js_bind_def)

lemma configLabelKey_of_obj:
  "configLabelKey_of ops (JObj a)
     (case spec_nested_payload (heap w a) of Some b \<Rightarrow> JObj b | None \<Rightarrow> JUndefined) key w =
   (Inr (spec_effective_key ops (heap w) (heap w a) key), w)"
proof (cases "spec_stringified ops (heap w a key)")
  case (Some s)
  then show ?thesis
    by (simp add: configLabelKey_of_def spec_effective_key_def
        js_bind_Inr [OF key_is_string_or_number_obj [where ops = ops]] get_String_obj)
next
  case direct: None
  show ?thesis
  proof (cases "spec_nested_payload (heap w a)")
    case None
    with direct show ?thesis
      by (simp add: configLabelKey_of_def spec_effective_key_def
          js_bind_Inr [OF key_is_string_or_number_obj [where ops = ops]])
  next
    case (Some b)
    show ?thesis
    proof (cases "spec_stringified ops (heap w b key)")
      case None
      with direct Some show ?thesis
        by (simp add: configLabelKey_of_def spec_effective_key_def
            js_bind_Inr [OF key_is_string_or_number_obj [where ops = ops]])
    next
      case nested: (Some s)
      with direct Some show ?thesis
        by (simp add: configLabelKey_of_def spec_effective_key_def
            js_bind_Inr [OF key_is_string_or_number_obj [where ops = ops]] get_String_obj)
    qed
  qed
qed

lemma lookup_obj:
  "js_bind (js_in ek (JObj c)) (\<lambda>found.
      if found then js_get (JObj c) ek else js_get (JObj c) key) w =
   (Inr (spec_lookup (heap w c) ek key), w)"
  by (simp add: js_bind_def spec_lookup_def split: option.splits)

lemma resolver_obj:
  "getPayloadConfigFromPayload ops config (JObj a) key w =
     (Inr (spec_lookup (heap w config) (spec_effective_key ops (heap w) (heap w a) key) key), w)"
  by (simp add: getPayloadConfigFromPayload_def js_bind_Inr [OF payloadPayload_of_obj]
      js_bind_Inr [OF configLabelKey_of_obj] lookup_obj)

lemma resolver_non_obj:
  "js_typeof payload \<noteq> ''object'' \<or> payload = JNull \<Longrightarrow>
   getPayloadConfigFromPayload ops config payload key w = (Inr JUndefined, w)"
  by (simp add: getPayloadConfigFromPayload_def)

lemma payload_cases:
  obtains (object) a where "payload = JObj a"
  | (other) "js_typeof payload \<noteq> ''object'' \<or> payload = JNull"
  by (cases payload) auto

lemma resolver_returns:
  "\<exists>v. getPayloadConfigFromPayload ops config payload key w = (Inr v, w)"
  by (cases payload rule: payload_cases) (auto simp: resolver_obj resolver_non_obj)

lemma spec_effective_key_cong:
  assumes "h' a = h a"
    and "\<And>b. h a ''payload'' = Some (JObj b) \<Longrightarrow> h' b = h b"
  shows "spec_effective_key ops h' (h' a) key = spec_effective_key ops h (h a) key"
proof (cases "spec_nested_payload (h a)")
  case None
  with assms(1) show ?thesis
    by (simp add: spec_effective_key_def split: option.splits)
next
  case (Some b)
  then have "h a ''payload'' = Some (JObj b)"
    by (auto simp: spec_nested_payload_def split: option.splits jsval.splits)
  then have "h' b = h b" by (rule assms(2))
  with assms(1) Some show ?thesis
    by (simp add: spec_effective_key_def split: option.splits)
qed

lemmas example_defs =
  example_world_def other_world_def example_heap_def integer_ops_def
  show_int_def show_nat.simps digit_char_def
  spec_lookup_def spec_effective_key_def spec_direct_key_def spec_nested_payload_def

section \<open>The resolver's claims\<close>

text \<open>
  C1. On a payload item that is an object, the resolver returns what the specification's
  algorithm returns: the effective key is the stringified direct field when that is a string
  or a number, else the stringified field of the nested payload object, else the key itself;
  the result is the config's entry under the effective key, else its entry under the key,
  else \<^verbatim>\<open>undefined\<close>.
\<close>

theorem resolver_follows_spec:
  "fst (getPayloadConfigFromPayload ops config (JObj a) key w) =
     Inr (spec_lookup (heap w config) (spec_effective_key ops (heap w) (heap w a) key) key)"
  by (simp add: resolver_obj)

theorem resolver_follows_spec_witness:
  "heap example_world 3 ''payload'' = Some (JObj 2) \<and>
   heap example_world 2 ''foo'' = Some (JStr ''bar'') \<and>
   heap example_world 1 ''bar'' = Some (JObj 10) \<and>
   fst (getPayloadConfigFromPayload integer_ops 1 (JObj 3) ''foo'' example_world) =
     Inr (JObj 10) \<and>
   fst (getPayloadConfigFromPayload integer_ops 1 (JObj 2) ''foo'' example_world) =
     Inr (JObj 10) \<and>
   fst (getPayloadConfigFromPayload integer_ops 1 (JObj 5) ''foo'' example_world) =
     Inr (JObj 11) \<and>
   fst (getPayloadConfigFromPayload integer_ops 1 (JObj 5) ''value'' example_world) =
     Inr JUndefined"
  using resolver_follows_spec [of integer_ops 1 3 "''foo''" example_world]
    resolver_follows_spec [of integer_ops 1 2 "''foo''" example_world]
    resolver_follows_spec [of integer_ops 1 5 "''foo''" example_world]
    resolver_follows_spec [of integer_ops 1 5 "''value''" example_world]
  by (simp add: example_defs)

text \<open>
  C2. When the effective key comes from a field of the payload item (directly, or through
  the nested payload) and both it and the literal key have an entry in the config, the
  resolver returns the entry of the effective key.
\<close>

theorem resolver_prefers_coerced_key:
  assumes "spec_stringified ops (heap w a key) = Some ek \<or>
           (spec_stringified ops (heap w a key) = None \<and>
            spec_nested_payload (heap w a) = Some b \<and>
            spec_stringified ops (heap w b key) = Some ek)"
    and "heap w config ek = Some e"
    and "heap w config key = Some e'"
  shows "fst (getPayloadConfigFromPayload ops config (JObj a) key w) = Inr e"
proof -
  from assms(1) have "spec_effective_key ops (heap w) (heap w a) key = ek"
    by (auto simp: spec_effective_key_def)
  with assms(2) show ?thesis
    by (simp add: resolver_obj spec_lookup_def)
qed

theorem resolver_prefers_coerced_key_witness:
  "heap example_world 1 ''bar'' = Some (JObj 10) \<and>
   heap example_world 1 ''foo'' = Some (JObj 11) \<and>
   fst (getPayloadConfigFromPayload integer_ops 1 (JObj 2) ''foo'' example_world) =
     Inr (JObj 10) \<and>
   fst (getPayloadConfigFromPayload integer_ops 1 (JObj 3) ''foo'' example_world) =
     Inr (JObj 10)"
proof -
  have cfg: "heap example_world 1 ''bar'' = Some (JObj 10)"
    "heap example_world 1 ''foo'' = Some (JObj 11)"
    by (simp_all add: example_defs)
  have direct: "spec_stringified integer_ops (heap example_world 2 ''foo'') = Some ''bar'' \<or>
      (spec_stringified integer_ops (heap example_world 2 ''foo'') = None \<and>
       spec_nested_payload (heap example_world 2) = Some 0 \<and>
       spec_stringified integer_ops (heap example_world 0 ''foo'') = Some ''bar'')"
    by (simp add: example_defs)
  have nested: "spec_stringified integer_ops (heap example_world 3 ''foo'') = Some ''bar'' \<or>
      (spec_stringified integer_ops (heap example_world 3 ''foo'') = None \<and>
       spec_nested_payload (heap example_world 3) = Some 2 \<and>
       spec_stringified integer_ops (heap example_world 2 ''foo'') = Some ''bar'')"
    by (simp add: example_defs)
  from resolver_prefers_coerced_key [OF direct cfg] resolver_prefers_coerced_key [OF nested cfg] cfg
  show ?thesis by simp
qed

text \<open>
  C3. A payload item that is not an object (\<^verbatim>\<open>typeof\<close> other than \<^verbatim>\<open>"object"\<close>, or
  \<^verbatim>\<open>null\<close>) gives \<^verbatim>\<open>undefined\<close> at once, whatever the config holds under the key.
\<close>

theorem resolver_non_object_undefined:
  "js_typeof payload \<noteq> ''object'' \<or> payload = JNull \<Longrightarrow>
   fst (getPayloadConfigFromPayload ops config payload key w) = Inr JUndefined"
  by (simp add: resolver_non_obj)

theorem resolver_non_object_undefined_witness:
  "heap example_world 1 ''foo'' = Some (JObj 11) \<and>
   fst (getPayloadConfigFromPayload integer_ops 1 JNull ''foo'' example_world) = Inr JUndefined \<and>
   fst (getPayloadConfigFromPayload integer_ops 1 JUndefined ''foo'' example_world) =
     Inr JUndefined \<and>
   fst (getPayloadConfigFromPayload integer_ops 1 (JStr ''foo'') ''foo'' example_world) =
     Inr JUndefined \<and>
   fst (getPayloadConfigFromPayload integer_ops 1 (JNum 42) ''foo'' example_world) =
     Inr JUndefined \<and>
   fst (getPayloadConfigFromPayload integer_ops 1 (JBool True) ''foo'' example_world) =
     Inr JUndefined"
  using resolver_non_object_undefined [of JNull integer_ops 1 "''foo''" example_world]
    resolver_non_object_undefined [of JUndefined integer_ops 1 "''foo''" example_world]
    resolver_non_object_undefined [of "JStr ''foo''" integer_ops 1 "''foo''" example_world]
    resolver_non_object_undefined [of "JNum 42" integer_ops 1 "''foo''" example_world]
    resolver_non_object_undefined [of "JBool True" integer_ops 1 "''foo''" example_world]
  by (simp add: example_defs)

text \<open>
  C6. A number held directly under the key is turned into its string before the config is
  indexed: the entry stored under that string is the result. With \<^verbatim>\<open>{foo: 42}\<close> and the
  key \<^verbatim>\<open>"foo"\<close> that is the entry under \<^verbatim>\<open>"42"\<close>.
\<close>

theorem resolver_coerces_number:
  "heap w a key = Some (JNum n) \<Longrightarrow> heap w config (Number_toString ops n) = Some e \<Longrightarrow>
   fst (getPayloadConfigFromPayload ops config (JObj a) key w) = Inr e"
  by (simp add: resolver_obj spec_effective_key_def spec_lookup_def)

theorem resolver_coerces_number_witness:
  "heap example_world 4 ''foo'' = Some (JNum 42) \<and>
   Number_toString integer_ops 42 = ''42'' \<and>
   heap example_world 1 ''42'' = Some (JObj 12) \<and>
   fst (getPayloadConfigFromPayload integer_ops 1 (JObj 4) ''foo'' example_world) =
     Inr (JObj 12)"
proof -
  have field: "heap example_world 4 ''foo'' = Some (JNum 42)"
    by (simp add: example_defs)
  have str: "Number_toString integer_ops 42 = ''42''"
    by (simp add: example_defs)
  have entry: "heap example_world 1 (Number_toString integer_ops 42) = Some (JObj 12)"
    by (simp add: example_defs)
  from resolver_coerces_number [OF field entry] field str entry
  show ?thesis by simp
qed

text \<open>
  C7. \<^verbatim>\<open>useChart\<close> outside a \<^verbatim>\<open>ChartContainer\<close>, where the context is absent, throws its
  error and returns nothing; inside one it returns the context. The resolver, for its part,
  never ends in an error.
\<close>

theorem useChart_outside_container:
  "useChart (None :: 'c option) w =
     (Inl (Error ''useChart must be used within a <ChartContainer />''), w) \<and>
   (\<forall>c :: 'c. useChart (Some c) w = (Inr c, w)) \<and>
   (\<forall>ops config payload key e.
      fst (getPayloadConfigFromPayload ops config payload key w) \<noteq> Inl e)"
proof -
  have "fst (getPayloadConfigFromPayload ops config payload key w) \<noteq> Inl e"
    for ops config payload key e
    using resolver_returns [of ops config payload key w] by auto
  then show ?thesis by (simp add: useChart_def)
qed

theorem useChart_outside_container_witness:
  "fst (useChart (None :: nat option) example_world) =
     Inl (Error ''useChart must be used within a <ChartContainer />'') \<and>
   fst (useChart (Some (1 :: nat)) example_world) = Inr 1"
  using useChart_outside_container [where w = example_world and ?'c = nat]
  by simp

text \<open>
  C8. A call leaves the world as it found it: no object of the store is changed, the config
  and the payload item among them, and nothing is written. Its result is determined by the
  key, the payload value and the contents of the config, of the payload item and of the
  item's nested payload: two worlds that agree on these give the same result.
\<close>

theorem resolver_pure_deterministic:
  "snd (getPayloadConfigFromPayload ops config payload key w) = w \<and>
   (heap w' config = heap w config \<and>
    (\<forall>a. payload = JObj a \<longrightarrow>
       heap w' a = heap w a \<and>
       (\<forall>b. heap w a ''payload'' = Some (JObj b) \<longrightarrow> heap w' b = heap w b)) \<longrightarrow>
    fst (getPayloadConfigFromPayload ops config payload key w') =
    fst (getPayloadConfigFromPayload ops config payload key w))"
proof (cases payload rule: payload_cases)
  case (object a)
  have "spec_effective_key ops (heap w') (heap w' a) key =
        spec_effective_key ops (heap w) (heap w a) key"
    if "heap w' a = heap w a"
      and "\<forall>b. heap w a ''payload'' = Some (JObj b) \<longrightarrow> heap w' b = heap w b"
    using that by (intro spec_effective_key_cong) auto
  with object show ?thesis by (auto simp: resolver_obj)
next
  case other
  then show ?thesis by (simp add: resolver_non_obj)
qed

theorem resolver_pure_deterministic_witness:
  "other_world \<noteq> example_world \<and>
   snd (getPayloadConfigFromPayload integer_ops 1 (JObj 3) ''foo'' example_world) =
     example_world \<and>
   fst (getPayloadConfigFromPayload integer_ops 1 (JObj 3) ''foo'' other_world) =
   fst (getPayloadConfigFromPayload integer_ops 1 (JObj 3) ''foo'' example_world)"
proof -
  have differ: "other_world \<noteq> example_world"
    by (simp add: example_world_def other_world_def)
  have agree: "heap other_world 1 = heap example_world 1 \<and>
    (\<forall>a. JObj 3 = JObj a \<longrightarrow>
       heap other_world a = heap example_world a \<and>
       (\<forall>b. heap example_world a ''payload'' = Some (JObj b) \<longrightarrow>
          heap other_world b = heap example_world b))"
    by (simp add: example_world_def other_world_def example_heap_def)
  with resolver_pure_deterministic
    [of integer_ops 1 "JObj 3" "''foo''" example_world other_world] differ
  show ?thesis by blast
qed

text \<open>
  C9. When the payload item's field \<^verbatim>\<open>payload\<close> holds something that is not a non-null
  object, the nested tier is skipped: the lookup key is the stringified direct field when
  that is a string or a number, and the literal key otherwise.
\<close>

theorem resolver_skips_non_object_payload:
  assumes "heap w a ''payload'' = Some v"
    and "js_typeof v \<noteq> ''object'' \<or> v = JNull"
  shows "fst (getPayloadConfigFromPayload ops config (JObj a) key w) =
     Inr (spec_lookup (heap w config) (spec_direct_key ops (heap w a) key) key)"
proof -
  from assms have "spec_nested_payload (heap w a) = None"
    by (cases v) (simp_all add: spec_nested_payload_def)
  then have "spec_effective_key ops (heap w) (heap w a) key = spec_direct_key ops (heap w a) key"
    by (simp add: spec_effective_key_def spec_direct_key_def split: option.splits)
  then show ?thesis by (simp add: resolver_obj)
qed

theorem resolver_skips_non_object_payload_witness:
  "heap example_world 6 ''payload'' = Some (JStr ''bar'') \<and>
   heap example_world 7 ''payload'' = Some JNull \<and>
   fst (getPayloadConfigFromPayload integer_ops 1 (JObj 6) ''foo'' example_world) =
     Inr (JObj 11) \<and>
   fst (getPayloadConfigFromPayload integer_ops 1 (JObj 6) ''payload'' example_world) =
     Inr (JObj 10) \<and>
   fst (getPayloadConfigFromPayload integer_ops 1 (JObj 7) ''foo'' example_world) =
     Inr (JObj 11)"
proof -
  have six: "heap example_world 6 ''payload'' = Some (JStr ''bar'')"
    and seven: "heap example_world 7 ''payload'' = Some JNull"
    by (simp_all add: example_defs)
  have str: "js_typeof (JStr ''bar'' :: int jsval) \<noteq> ''object'' \<or> JStr ''bar'' = (JNull :: int jsval)"
    and null: "js_typeof (JNull :: int jsval) \<noteq> ''object'' \<or> JNull = (JNull :: int jsval)"
    by simp_all
  from resolver_skips_non_object_payload [OF six str, of integer_ops 1 "''foo''"]
    resolver_skips_non_object_payload [OF six str, of integer_ops 1 "''payload''"]
    resolver_skips_non_object_payload [OF seven null, of integer_ops 1 "''foo''"]
    six seven
  show ?thesis by (simp add: example_defs)
qed

section \<open>The configuration type and the style sheet\<close>

lemma css_variable_spec:
  "css_variable themeName key e =
     (case spec_color themeName e of
        None \<Rightarrow> None
      | Some c \<Rightarrow> Some (''  --color-'' @ key @ '': '' @ c @ '';''))"
  by (simp add: css_variable_def item_color_def spec_color_def string_truthy_def Let_def
      split: option.splits)

lemma spec_color_dropped:
  "theme e = None \<Longrightarrow> \<not> string_truthy (color e) \<Longrightarrow> spec_color themeName e = None"
  by (simp add: spec_color_def string_truthy_def split: option.splits)

lemma declarations_colorConfig:
  "map the (filter (\<lambda>l. l \<noteq> None)
     (map (\<lambda>(key, e). css_variable themeName key e) (colorConfig_of config))) =
   spec_declarations themeName config"
proof (induction config)
  case Nil
  show ?case by (simp add: colorConfig_of_def spec_declarations_def)
next
  case (Cons entry config)
  obtain key e where entry: "entry = (key, e)" by (cases entry)
  from Cons.IH have rest: "map the (filter (\<lambda>l. l \<noteq> None)
      (map (\<lambda>(key, e). css_variable themeName key e)
         (filter (\<lambda>(k, e). theme e \<noteq> None \<or> string_truthy (color e)) config))) =
    spec_declarations themeName config"
    by (simp add: colorConfig_of_def)
  show ?case
  proof (cases "theme e \<noteq> None \<or> string_truthy (color e)")
    case True
    with rest entry show ?thesis
      by (cases "spec_color themeName e")
         (simp_all add: colorConfig_of_def spec_declarations_def css_variable_spec)
  next
    case False
    then have "spec_color themeName e = None"
      by (simp add: spec_color_dropped)
    with False rest entry show ?thesis
      by (simp add: colorConfig_of_def spec_declarations_def)
  qed
qed

lemma colorConfig_empty:
  "colorConfig_of config = [] \<longleftrightarrow>
     (\<forall>(k, e) \<in> set config. theme e = None \<and> (color e = None \<or> color e = Some []))"
  by (auto simp: colorConfig_of_def filter_empty_conv string_truthy_def split: option.splits)

lemma colorConfig_of_set_fields:
  "colorConfig_of (filter (\<lambda>(k, e). color e \<noteq> None \<or> theme e \<noteq> None) config) =
   colorConfig_of config"
  by (induction config) (auto simp: colorConfig_of_def string_truthy_def)

lemma theme_rule_spec:
  "theme_rule chart_id (colorConfig_of config) (themeName, prefix) =
   spec_theme_rule chart_id config (themeName, prefix)"
  by (simp only: theme_rule_def spec_theme_rule_def prod.case declarations_colorConfig)

lemma ChartStyle_spec:
  "ChartStyle chart_id config =
     (if colorConfig_of config = [] then None else Some (spec_style chart_id config))"
  by (simp only: ChartStyle_def Let_def THEMES_def list.map theme_rule_spec spec_style_def
      length_0_conv)

lemma spec_color_unset:
  "color e = None \<Longrightarrow> theme e = None \<Longrightarrow> spec_color themeName e = None"
  by (simp add: spec_color_def)

lemma spec_declarations_set_fields:
  "spec_declarations themeName
     (filter (\<lambda>(k, e). color e \<noteq> None \<or> theme e \<noteq> None) config) =
   spec_declarations themeName config"
proof (induction config)
  case Nil
  show ?case by (simp add: spec_declarations_def)
next
  case (Cons entry config)
  obtain key e where entry: "entry = (key, e)" by (cases entry)
  show ?case
  proof (cases "color e = None \<and> theme e = None")
    case True
    then have "spec_color themeName e = None"
      by (simp add: spec_color_unset)
    with True Cons.IH entry show ?thesis
      by (simp add: spec_declarations_def)
  next
    case False
    with Cons.IH entry show ?thesis
      by (auto simp: spec_declarations_def)
  qed
qed

lemmas entry_defs =
  plain_entry_def colored_entry_def themed_entry_def both_entry_def blank_entry_def

text \<open>
  C4, as the claim has it, fails on an entry with a label and neither a color nor a theme:
  the type accepts it.
\<close>

theorem ChartConfig_entry_neither_counterexample:
  "color plain_entry = None \<and> theme plain_entry = None \<and> ChartConfig_entry_type plain_entry"
  by (simp add: plain_entry_def ChartConfig_entry_type_def)

text \<open>
  C4, amended. The type of a config entry admits at most one of \<open>color\<close> and \<open>theme\<close>:
  an entry with both is rejected, an entry with one of them or with neither is accepted.
\<close>

theorem ChartConfig_entry_at_most_one:
  "ChartConfig_entry_type e \<longleftrightarrow> \<not> (color e \<noteq> None \<and> theme e \<noteq> None)"
  by (auto simp: ChartConfig_entry_type_def)

theorem ChartConfig_entry_at_most_one_witness:
  "ChartConfig_entry_type colored_entry \<and> ChartConfig_entry_type themed_entry \<and>
   ChartConfig_entry_type plain_entry \<and> \<not> ChartConfig_entry_type both_entry"
  using ChartConfig_entry_at_most_one [of colored_entry]
    ChartConfig_entry_at_most_one [of themed_entry]
    ChartConfig_entry_at_most_one [of plain_entry]
    ChartConfig_entry_at_most_one [of both_entry]
  by (simp add: entry_defs)

text \<open>
  C10, as the claim has it, fails on a config whose only entry has the empty string as its
  color: the color is set, and \<^verbatim>\<open>ChartStyle\<close> returns \<^verbatim>\<open>null\<close>.
\<close>

theorem ChartStyle_blank_color_counterexample:
  "color blank_entry = Some '''' \<and> ChartStyle ''chart-1'' [(''tablet'', blank_entry)] = None"
  by (simp add: blank_entry_def ChartStyle_def colorConfig_of_def string_truthy_def)

text \<open>
  C10, amended. \<^verbatim>\<open>ChartStyle\<close> returns \<^verbatim>\<open>null\<close> exactly when no entry has a theme or a
  color other than the empty string. Entries with neither field contribute nothing: leaving
  them out gives the same result. The style sheet has one rule per theme, and the rule
  declares, for each entry in order, the theme's own color when the entry has a theme and
  that color is not empty, otherwise the entry's direct color when there is one and it is
  not empty, and nothing otherwise.
\<close>

theorem ChartStyle_emits:
  "(ChartStyle chart_id config = None \<longleftrightarrow>
      (\<forall>(k, e) \<in> set config. theme e = None \<and> (color e = None \<or> color e = Some []))) \<and>
   ChartStyle chart_id (filter (\<lambda>(k, e). color e \<noteq> None \<or> theme e \<noteq> None) config) =
     ChartStyle chart_id config \<and>
   (\<forall>html. ChartStyle chart_id config = Some html \<longrightarrow> html = spec_style chart_id config)"
proof (intro conjI)
  show "ChartStyle chart_id config = None \<longleftrightarrow>
      (\<forall>(k, e) \<in> set config. theme e = None \<and> (color e = None \<or> color e = Some []))"
    by (simp add: ChartStyle_spec colorConfig_empty)
next
  have "spec_style chart_id
          (filter (\<lambda>(k, e). color e \<noteq> None \<or> theme e \<noteq> None) config) =
        spec_style chart_id config"
    by (simp only: spec_style_def spec_theme_rule_def spec_declarations_set_fields)
  then show "ChartStyle chart_id
          (filter (\<lambda>(k, e). color e \<noteq> None \<or> theme e \<noteq> None) config) =
        ChartStyle chart_id config"
    by (simp only: ChartStyle_spec colorConfig_of_set_fields)
next
  show "\<forall>html. ChartStyle chart_id config = Some html \<longrightarrow> html = spec_style chart_id config"
    by (simp add: ChartStyle_spec)
qed

theorem ChartStyle_emits_witness:
  "ChartStyle ''chart-1'' [(''visitors'', plain_entry), (''tablet'', blank_entry)] = None \<and>
   ChartStyle ''chart-1''
     [(''visitors'', plain_entry), (''desktop'', colored_entry), (''mobile'', themed_entry)] =
   Some (NL @ '' [data-chart=chart-1] {'' @ NL @
         ''  --color-desktop: #2563eb;'' @ NL @
         ''  --color-mobile: #60a5fa;'' @ NL @
         ''}'' @ NL @ NL @ NL @
         ''.dark [data-chart=chart-1] {'' @ NL @
         ''  --color-desktop: #2563eb;'' @ NL @
         ''  --color-mobile: #1d4ed8;'' @ NL @
         ''}'' @ NL)"
proof -
  let ?none = "[(''visitors'', plain_entry), (''tablet'', blank_entry)]"
  let ?some = "[(''visitors'', plain_entry), (''desktop'', colored_entry),
    (''mobile'', themed_entry)]"
  have "\<forall>(k, e) \<in> set ?none. theme e = None \<and> (color e = None \<or> color e = Some [])"
    by (simp add: entry_defs)
  with ChartStyle_emits [of "''chart-1''" ?none]
  have none: "ChartStyle ''chart-1'' ?none = None" by blast
  have "\<not> (\<forall>(k, e) \<in> set ?some. theme e = None \<and> (color e = None \<or> color e = Some []))"
    by (simp add: entry_defs)
  with ChartStyle_emits [of "''chart-1''" ?some]
  obtain html where "ChartStyle ''chart-1'' ?some = Some html"
    and "html = spec_style ''chart-1'' ?some"
    by (cases "ChartStyle ''chart-1'' ?some") auto
  then have "ChartStyle ''chart-1'' ?some = Some (spec_style ''chart-1'' ?some)"
    by simp
  with none show ?thesis
    by (simp add: spec_style_def spec_theme_rule_def spec_declarations_def spec_color_def
        theme_get_def entry_defs)
qed

section \<open>The resolver on objects whose reads run code\<close>

lemma bind_result_Inr [simp]: "bind_result (Inr x) f = f x"
  by (simp add: bind_result_def)

lemma bind_result_Inl [simp]: "bind_result (Inl e) f = Inl e"
  by (simp add: bind_result_def)

lemma lookup_property_mem:
  "lookup_property obj key = Some p \<Longrightarrow>
   (key, p) \<in> set (own obj) \<or> (key, p) \<in> set (inherited obj)"
  by (auto simp: lookup_property_def split: option.splits dest: map_of_SomeD)

lemma data_only_lookup:
  assumes "data_only obj"
  shows "lookup_property obj key = map_option Data (data_view obj key)"
proof (cases "lookup_property obj key")
  case None
  then show ?thesis by (simp add: data_view_def)
next
  case (Some p)
  from lookup_property_mem [OF Some] assms have "is_data p"
    by (auto simp: data_only_def list_all_iff)
  then obtain v where "p = Data v" by (cases p) auto
  with Some show ?thesis by (simp add: data_view_def)
qed

lemma js_in_full_data:
  assumes "data_only (S a)"
  shows "js_in_full S key (JObj a) = Inr (data_view (S a) key \<noteq> None)"
proof -
  from assms have "has_trap (S a) = None" by (simp add: data_only_def)
  then show ?thesis
    by (cases "data_view (S a) key") (simp_all add: data_only_lookup [OF assms])
qed

lemma js_get_full_data:
  assumes "data_only (S a)"
  shows "js_get_full S (JObj a) key =
     Inr (case data_view (S a) key of None \<Rightarrow> JUndefined | Some v \<Rightarrow> v)"
proof -
  from assms have "get_trap (S a) = None" by (simp add: data_only_def)
  then show ?thesis
    by (cases "data_view (S a) key") (simp_all add: data_only_lookup [OF assms])
qed

declare js_in_full.simps [simp del] js_get_full.simps [simp del]

lemma payloadPayload_of_full_data:
  assumes "data_only (S a)"
  shows "payloadPayload_of_full ops S (JObj a) =
     Inr (case spec_nested_payload (data_view (S a)) of
            Some b \<Rightarrow> JObj b | None \<Rightarrow> JUndefined)"
  using assms
  by (cases "data_view (S a) ''payload''"; cases "the (data_view (S a) ''payload'')")
     (simp_all add: payloadPayload_of_full_def spec_nested_payload_def js_get_full_data)

lemma key_is_string_or_number_full_data:
  assumes "data_only (S a)"
  shows "key_is_string_or_number_full S key (JObj a) =
     Inr (spec_stringified ops (data_view (S a) key) \<noteq> None)"
  using assms
  by (cases "data_view (S a) key"; cases "the (data_view (S a) key)")
     (simp_all add: key_is_string_or_number_full_def js_in_full_data js_get_full_data)

lemma get_String_full_data:
  assumes "data_only (S a)" and "spec_stringified ops (data_view (S a) key) = Some s"
  shows "bind_result (js_get_full S (JObj a) key) (js_String_full ops) = Inr s"
  using assms
  by (cases "data_view (S a) key"; cases "the (data_view (S a) key)")
     (simp_all add: js_get_full_data)

lemma configLabelKey_of_full_data:
  assumes item: "data_only (S a)"
    and nested: "\<And>b. spec_nested_payload (data_view (S a)) = Some b \<Longrightarrow> data_only (S b)"
  shows "configLabelKey_of_full ops S (JObj a)
     (case spec_nested_payload (data_view (S a)) of
        Some b \<Rightarrow> JObj b | None \<Rightarrow> JUndefined) key =
   Inr (spec_effective_key ops (\<lambda>b. data_view (S b)) (data_view (S a)) key)"
proof -
  have direct: "key_is_string_or_number_full S key (JObj a) =
      Inr (spec_stringified ops (data_view (S a) key) \<noteq> None)"
    using item by (rule key_is_string_or_number_full_data)
  show ?thesis
  proof (cases "spec_stringified ops (data_view (S a) key)")
    case (Some s)
    with item show ?thesis
      by (simp add: configLabelKey_of_full_def spec_effective_key_def direct
          get_String_full_data)
  next
    case none: None
    show ?thesis
    proof (cases "spec_nested_payload (data_view (S a))")
      case None
      with none show ?thesis
        by (simp add: configLabelKey_of_full_def spec_effective_key_def direct)
    next
      case (Some b)
      then have inner: "data_only (S b)" by (rule nested)
      have nest: "key_is_string_or_number_full S key (JObj b) =
          Inr (spec_stringified ops (data_view (S b) key) \<noteq> None)"
        using inner by (rule key_is_string_or_number_full_data)
      show ?thesis
      proof (cases "spec_stringified ops (data_view (S b) key)")
        case None
        with none Some show ?thesis
          by (simp add: configLabelKey_of_full_def spec_effective_key_def direct nest)
      next
        case found: (Some s)
        with none Some inner show ?thesis
          by (simp add: configLabelKey_of_full_def spec_effective_key_def direct nest
              get_String_full_data)
      qed
    qed
  qed
qed

lemma lookup_full_data:
  assumes "data_only (S c)"
  shows "bind_result (js_in_full S ek (JObj c)) (\<lambda>found.
      if found then js_get_full S (JObj c) ek else js_get_full S (JObj c) key) =
   Inr (spec_lookup (data_view (S c)) ek key)"
  using assms
  by (simp add: js_in_full_data js_get_full_data spec_lookup_def split: option.splits)

lemma resolver_full_data:
  assumes "data_only (S config)" and "data_only (S a)"
    and "\<And>b. spec_nested_payload (data_view (S a)) = Some b \<Longrightarrow> data_only (S b)"
  shows "getPayloadConfigFromPayload_full ops S config (JObj a) key =
     Inr (spec_lookup (data_view (S config))
            (spec_effective_key ops (\<lambda>b. data_view (S b)) (data_view (S a)) key) key)"
proof -
  have "payloadPayload_of_full ops S (JObj a) =
      Inr (case spec_nested_payload (data_view (S a)) of
             Some b \<Rightarrow> JObj b | None \<Rightarrow> JUndefined)"
    using assms(2) by (rule payloadPayload_of_full_data)
  moreover have "configLabelKey_of_full ops S (JObj a)
       (case spec_nested_payload (data_view (S a)) of
          Some b \<Rightarrow> JObj b | None \<Rightarrow> JUndefined) key =
     Inr (spec_effective_key ops (\<lambda>b. data_view (S b)) (data_view (S a)) key)"
    using assms(2,3) by (rule configLabelKey_of_full_data)
  ultimately show ?thesis
    using assms(1) by (simp add: getPayloadConfigFromPayload_full_def lookup_full_data)
qed

lemma resolver_full_non_obj:
  "js_typeof payload \<noteq> ''object'' \<or> payload = JNull \<Longrightarrow>
   getPayloadConfigFromPayload_full ops S config payload key = Inr JUndefined"
  by (simp add: getPayloadConfigFromPayload_full_def)

lemma spec_nested_payload_iff:
  "spec_nested_payload item = Some b \<longleftrightarrow> item ''payload'' = Some (JObj b)"
  by (auto simp: spec_nested_payload_def split: option.splits jsval.splits)

text \<open>
  On objects of data only the resolver of this section is the resolver of the sections
  above, run on the data views.
\<close>

lemma resolver_full_is_resolver:
  assumes "data_only (S config)"
    and "\<forall>a. payload = JObj a \<longrightarrow>
           data_only (S a) \<and>
           (\<forall>b. data_view (S a) ''payload'' = Some (JObj b) \<longrightarrow> data_only (S b))"
  shows "getPayloadConfigFromPayload_full ops S config payload key =
     fst (getPayloadConfigFromPayload ops config payload key
            \<lparr>heap = \<lambda>a. data_view (S a), console = out\<rparr>)"
proof (cases payload rule: payload_cases)
  case (object a)
  with assms(2) have "data_only (S a)"
    and "\<And>b. spec_nested_payload (data_view (S a)) = Some b \<Longrightarrow> data_only (S b)"
    by (simp_all add: spec_nested_payload_iff)
  then have "getPayloadConfigFromPayload_full ops S config (JObj a) key =
     Inr (spec_lookup (data_view (S config))
            (spec_effective_key ops (\<lambda>b. data_view (S b)) (data_view (S a)) key) key)"
    using assms(1) by (intro resolver_full_data)
  with object show ?thesis
    by (simp add: resolver_obj)
next
  case other
  then show ?thesis by (simp add: resolver_full_non_obj resolver_non_obj)
qed

lemmas store_defs =
  example_store_def plain_def Object_prototype_def lookup_property_def data_view_def
  data_only_def integer_ops_def show_int_def show_nat.simps digit_char_def
  spec_lookup_def spec_effective_key_def spec_nested_payload_def

text \<open>
  C5, as the claim has it, fails on a payload item whose property under the key is an
  accessor with a throwing getter, and on a proxy whose \<^verbatim>\<open>has\<close> trap throws: the
  resolver ends in that error. Its second half fails on a key that names a member the
  config inherits: the config has no entry of its own under \<^verbatim>\<open>toString\<close>, and the
  result is the inherited function, not \<^verbatim>\<open>undefined\<close>.
\<close>

theorem resolver_raises_counterexample:
  "getPayloadConfigFromPayload_full integer_ops example_store 1 (JObj 2) ''foo'' =
     Inl (Error ''boom'') \<and>
   getPayloadConfigFromPayload_full integer_ops example_store 1 (JObj 3) ''foo'' =
     Inl (TypeError ''has trap'') \<and>
   map_of (own (example_store 1)) ''toString'' = None \<and>
   getPayloadConfigFromPayload_full integer_ops example_store 1 (JObj 4) ''toString'' =
     Inr (JFun 30)"
  by (simp add: getPayloadConfigFromPayload_full_def payloadPayload_of_full_def
      configLabelKey_of_full_def key_is_string_or_number_full_def
      js_in_full.simps js_get_full.simps
      example_store_def plain_def Object_prototype_def lookup_property_def)

text \<open>
  C5, amended. When the config, the payload item and the item's nested payload are objects
  of data only (no accessor, no proxy trap; fields of any type), and equally when the
  payload is \<^verbatim>\<open>null\<close> or a primitive, the resolver ends in a value and never in an error.
  That value is the member the config shows under the effective key, own or inherited,
  when there is one; it is \<^verbatim>\<open>undefined\<close> when the config shows a member neither under
  the effective key nor under the key.
\<close>

theorem resolver_data_never_raises:
  assumes "data_only (S config)"
    and "\<forall>a. payload = JObj a \<longrightarrow>
           data_only (S a) \<and>
           (\<forall>b. data_view (S a) ''payload'' = Some (JObj b) \<longrightarrow> data_only (S b))"
  shows "(\<exists>v. getPayloadConfigFromPayload_full ops S config payload key = Inr v) \<and>
    (\<forall>a v. payload = JObj a \<and>
       data_view (S config)
         (spec_effective_key ops (\<lambda>b. data_view (S b)) (data_view (S a)) key) = Some v \<longrightarrow>
       getPayloadConfigFromPayload_full ops S config payload key = Inr v) \<and>
    (data_view (S config) key = None \<and>
     (\<forall>a. payload = JObj a \<longrightarrow>
        data_view (S config)
          (spec_effective_key ops (\<lambda>b. data_view (S b)) (data_view (S a)) key) = None) \<longrightarrow>
     getPayloadConfigFromPayload_full ops S config payload key = Inr JUndefined)"
proof (cases payload rule: payload_cases)
  case (object a)
  with assms(2) have "data_only (S a)"
    and "\<And>b. spec_nested_payload (data_view (S a)) = Some b \<Longrightarrow> data_only (S b)"
    by (simp_all add: spec_nested_payload_iff)
  then have "getPayloadConfigFromPayload_full ops S config (JObj a) key =
     Inr (spec_lookup (data_view (S config))
            (spec_effective_key ops (\<lambda>b. data_view (S b)) (data_view (S a)) key) key)"
    using assms(1) by (intro resolver_full_data)
  with object show ?thesis
    by (simp add: spec_lookup_def)
next
  case other
  then have "getPayloadConfigFromPayload_full ops S config payload key = Inr JUndefined"
    by (rule resolver_full_non_obj)
  moreover from other have "\<And>a. payload \<noteq> JObj a" by auto
  ultimately show ?thesis by simp
qed

theorem resolver_data_never_raises_witness:
  "getPayloadConfigFromPayload_full integer_ops example_store 1 (JObj 4) ''value'' =
     Inr JUndefined \<and>
   getPayloadConfigFromPayload_full integer_ops example_store 1 (JObj 6) ''foo'' =
     Inr JUndefined \<and>
   getPayloadConfigFromPayload_full integer_ops example_store 1 (JObj 6) ''name'' =
     Inr (JObj 10) \<and>
   getPayloadConfigFromPayload_full integer_ops example_store 1 (JObj 7) ''name'' =
     Inr (JObj 10) \<and>
   getPayloadConfigFromPayload_full integer_ops example_store 1 (JObj 5) ''name'' =
     Inr (JFun 30) \<and>
   getPayloadConfigFromPayload_full integer_ops example_store 1 JNull ''value'' =
     Inr JUndefined"
proof -
  have cfg: "data_only (example_store 1)"
    by (simp add: store_defs)
  have item: "\<forall>a. JObj i = JObj a \<longrightarrow>
      data_only (example_store a) \<and>
      (\<forall>b. data_view (example_store a) ''payload'' = Some (JObj b) \<longrightarrow>
         data_only (example_store b))"
    if "i \<in> {4, 5, 6, 7}" for i :: nat
    using that by (auto simp: store_defs)
  have null: "\<forall>a. (JNull :: int jsval) = JObj a \<longrightarrow>
      data_only (example_store a) \<and>
      (\<forall>b. data_view (example_store a) ''payload'' = Some (JObj b) \<longrightarrow>
         data_only (example_store b))"
    by simp
  note inst = resolver_data_never_raises
    [where S = example_store and config = 1 and ops = integer_ops, OF cfg]
  have "getPayloadConfigFromPayload_full integer_ops example_store 1 (JObj 4) ''value'' =
      Inr JUndefined"
    using inst [OF item [of 4], where key = "''value''"] by (simp add: store_defs)
  moreover
  have "getPayloadConfigFromPayload_full integer_ops example_store 1 (JObj 6) ''foo'' =
      Inr JUndefined"
    using inst [OF item [of 6], where key = "''foo''"] by (simp add: store_defs)
  moreover
  have "getPayloadConfigFromPayload_full integer_ops example_store 1 (JObj 6) ''name'' =
      Inr (JObj 10)"
    using inst [OF item [of 6], where key = "''name''"] by (simp add: store_defs)
  moreover
  have "getPayloadConfigFromPayload_full integer_ops example_store 1 (JObj 7) ''name'' =
      Inr (JObj 10)"
    using inst [OF item [of 7], where key = "''name''"] by (simp add: store_defs)
  moreover
  have "getPayloadConfigFromPayload_full integer_ops example_store 1 (JObj 5) ''name'' =
      Inr (JFun 30)"
    using inst [OF item [of 5], where key = "''name''"] by (simp add: store_defs)
  moreover
  have "getPayloadConfigFromPayload_full integer_ops example_store 1 JNull ''value'' =
      Inr JUndefined"
    using inst [OF null, where key = "''value''"] by (simp add: store_defs)
  ultimately show ?thesis by simp
qed

end
